theory Spec2Isabelle
  imports Main
begin

section \<open>Logger (core/Logger.js)\<close>

text \<open>
  The Logger singleton keeps its entries in the array \<open>logs\<close>. The fields set by the
  constructor are \<open>currentLevel = levels.INFO\<close>, \<open>logs = []\<close> and \<open>maxLogs = 1000\<close>.
  The timestamp (\<open>new Date().toISOString()\<close>) and the stack (\<open>new Error().stack\<close>) come
  from the environment, so every logging operation carries them as arguments. The \<open>data\<close>
  argument is an arbitrary JavaScript value; \<open>None\<close> stands for \<open>null\<close>.
\<close>

record log_entry =
  timestamp :: string
  level :: string
  message :: string
  data :: "string option"
  stack :: "string option"

record logger =
  currentLevel :: nat
  logs :: "log_entry list"
  maxLogs :: nat
  console :: "(string \<times> string \<times> string) list"

text \<open>
  \<open>this.levels\<close>. For a name that is not one of the four levels the lookup gives
  \<open>undefined\<close> (or an inherited member of the object), and the comparison
  \<open>this.levels[level] <= this.currentLevel\<close> is then false: \<open>None\<close>.
\<close>

definition levels :: "string \<Rightarrow> nat option" where
  "levels l =
     (if l = ''ERROR'' then Some 0
      else if l = ''WARN'' then Some 1
      else if l = ''INFO'' then Some 2
      else if l = ''DEBUG'' then Some 3
      else None)"

definition Logger_new :: logger where
  "Logger_new = \<lparr> currentLevel = 2, logs = [], maxLogs = 1000, console = [] \<rparr>"

text \<open>\<open>level.toLowerCase()\<close> on the four names that pass the level test.\<close>

definition consoleMethod :: "string \<Rightarrow> string" where
  "consoleMethod l =
     (if l = ''ERROR'' then ''error''
      else if l = ''WARN'' then ''warn''
      else if l = ''INFO'' then ''info''
      else if l = ''DEBUG'' then ''debug''
      else l)"

text \<open>
  \<open>xs.slice(-n)\<close>: the last \<open>n\<close> elements, all of them when there are fewer;
  \<open>slice(-0)\<close> is \<open>slice(0)\<close>, the whole array.
\<close>

definition slice_last :: "nat \<Rightarrow> 'a list \<Rightarrow> 'a list" where
  "slice_last n xs = (if n = 0 then xs else drop (length xs - n) xs)"

definition log :: "string \<Rightarrow> string \<Rightarrow> string \<Rightarrow> string \<Rightarrow> string option \<Rightarrow> logger \<Rightarrow> logger" where
  "log ts stk lvl msg d L =
     (case levels lvl of
        None \<Rightarrow> L
      | Some v \<Rightarrow>
          if v \<le> currentLevel L then
            let logEntry = \<lparr> timestamp = ts, level = lvl, message = msg, data = d,
                             stack = (if lvl = ''ERROR'' then Some stk else None) \<rparr>;
                pushed = logs L @ [logEntry];
                kept = (if length pushed > maxLogs L then slice_last (maxLogs L) pushed
                        else pushed)
            in L\<lparr> logs := kept,
                  console := console L @
                    [(consoleMethod lvl,
                      ''['' @ ts @ ''] '' @ lvl @ '': '' @ msg,
                      (case d of None \<Rightarrow> '''' | Some x \<Rightarrow> x))] \<rparr>
          else L)"

definition error :: "string \<Rightarrow> string \<Rightarrow> string \<Rightarrow> string option \<Rightarrow> logger \<Rightarrow> logger" where
  "error ts stk msg d L = log ts stk ''ERROR'' msg d L"

definition warn :: "string \<Rightarrow> string \<Rightarrow> string \<Rightarrow> string option \<Rightarrow> logger \<Rightarrow> logger" where
  "warn ts stk msg d L = log ts stk ''WARN'' msg d L"

definition info :: "string \<Rightarrow> string \<Rightarrow> string \<Rightarrow> string option \<Rightarrow> logger \<Rightarrow> logger" where
  "info ts stk msg d L = log ts stk ''INFO'' msg d L"

definition debug :: "string \<Rightarrow> string \<Rightarrow> string \<Rightarrow> string option \<Rightarrow> logger \<Rightarrow> logger" where
  "debug ts stk msg d L = log ts stk ''DEBUG'' msg d L"

definition clear :: "logger \<Rightarrow> logger" where
  "clear L = L\<lparr> logs := [] \<rparr>"

text \<open>One call of a public method of the Logger, with the environment's values.\<close>

datatype logger_op =
    OpError string string string "string option"
  | OpWarn string string string "string option"
  | OpInfo string string string "string option"
  | OpDebug string string string "string option"
  | OpLog string string string string "string option"
  | OpClear

fun logger_step :: "logger \<Rightarrow> logger_op \<Rightarrow> logger" where
  "logger_step L (OpError ts stk msg d) = error ts stk msg d L"
| "logger_step L (OpWarn ts stk msg d) = warn ts stk msg d L"
| "logger_step L (OpInfo ts stk msg d) = info ts stk msg d L"
| "logger_step L (OpDebug ts stk msg d) = debug ts stk msg d L"
| "logger_step L (OpLog ts stk lvl msg d) = log ts stk lvl msg d L"
| "logger_step L OpClear = clear L"

definition logger_run :: "logger_op list \<Rightarrow> logger" where
  "logger_run ops = foldl logger_step Logger_new ops"

text \<open>
  The entries a Logger without any cap would hold: every entry that passed the level
  test since the last \<open>clear\<close>, oldest first. It follows the same operations and never
  truncates.
\<close>

definition accept :: "nat \<times> log_entry list \<Rightarrow> string \<Rightarrow> string \<Rightarrow> string \<Rightarrow> string \<Rightarrow> string option \<Rightarrow>
    nat \<times> log_entry list" where
  "accept st ts stk lvl msg d =
     (case levels lvl of
        None \<Rightarrow> st
      | Some v \<Rightarrow>
          if v \<le> fst st
          then (fst st, snd st @ [\<lparr> timestamp = ts, level = lvl, message = msg, data = d,
                                     stack = (if lvl = ''ERROR'' then Some stk else None) \<rparr>])
          else st)"

fun accepted_step :: "nat \<times> log_entry list \<Rightarrow> logger_op \<Rightarrow> nat \<times> log_entry list" where
  "accepted_step st (OpLog ts stk lvl msg d) = accept st ts stk lvl msg d"
| "accepted_step st (OpError ts stk msg d) = accept st ts stk ''ERROR'' msg d"
| "accepted_step st (OpWarn ts stk msg d) = accept st ts stk ''WARN'' msg d"
| "accepted_step st (OpInfo ts stk msg d) = accept st ts stk ''INFO'' msg d"
| "accepted_step st (OpDebug ts stk msg d) = accept st ts stk ''DEBUG'' msg d"
| "accepted_step st OpClear = (fst st, [])"

definition accepted :: "logger_op list \<Rightarrow> log_entry list" where
  "accepted ops = snd (foldl accepted_step (2, []) ops)"

section \<open>EventBus (core/EventBus.js)\<close>

text \<open>
  A statement of the source either completes or throws; in both cases the mutations made
  so far stay. \<open>Returned s\<close> is normal completion in state \<open>s\<close>, \<open>Threw e s\<close> an exception
  \<open>e\<close> propagating out in state \<open>s\<close>.
\<close>

datatype exn = TypeError string | SyntaxError string | UserError string

datatype 's outcome = Returned 's | Threw exn 's

text \<open>
  \<open>this.events = {}\<close> is a plain object used as a dictionary from event names to arrays of
  callbacks. A property read \<open>this.events[event]\<close> finds an own property if there is one;
  otherwise it follows the prototype chain to \<open>Object.prototype\<close>, whose members are all
  truthy (functions, or for \<open>__proto__\<close> the prototype object itself) and have neither
  \<open>forEach\<close> nor \<open>push\<close>; otherwise the read gives \<open>undefined\<close>.
\<close>

definition Object_prototype_members :: "string list" where
  "Object_prototype_members =
     [''constructor'', ''hasOwnProperty'', ''isPrototypeOf'', ''propertyIsEnumerable'',
      ''toLocaleString'', ''toString'', ''valueOf'', ''__proto__'',
      ''__defineGetter__'', ''__defineSetter__'', ''__lookupGetter__'', ''__lookupSetter__'']"

datatype 'a js_prop = Own 'a | Inherited | Undefined

definition js_get :: "(string \<Rightarrow> 'a option) \<Rightarrow> string \<Rightarrow> 'a js_prop" where
  "js_get own name =
     (case own name of
        Some v \<Rightarrow> Own v
      | None \<Rightarrow> if name \<in> set Object_prototype_members then Inherited else Undefined)"

text \<open>
  A callback is a function object, compared by identity (\<open>cb !== callback\<close>): a number.
  What a callback does when called is given by a code table; a callback works on the whole
  state, the event bus included, so it may subscribe, unsubscribe or publish itself, and
  it may throw. \<open>world\<close> is everything else the callbacks touch.
\<close>

type_synonym cbid = nat

record 'w bus_state =
  events :: "string \<Rightarrow> cbid list option"
  bus_console :: "(string \<times> exn) list"
  world :: 'w

type_synonym ('d, 'w) callbacks = "cbid \<Rightarrow> 'd \<Rightarrow> 'w bus_state \<Rightarrow> 'w bus_state outcome"

definition EventBus_new :: "'w \<Rightarrow> 'w bus_state" where
  "EventBus_new w = \<lparr> events = (\<lambda>_. None), bus_console = [], world = w \<rparr>"

definition subscribe :: "string \<Rightarrow> cbid \<Rightarrow> 'w bus_state \<Rightarrow> 'w bus_state outcome" where
  "subscribe event callback st =
     (case js_get (events st) event of
        Undefined \<Rightarrow> Returned (st\<lparr> events := (events st)(event \<mapsto> [callback]) \<rparr>)
      | Own cbs \<Rightarrow> Returned (st\<lparr> events := (events st)(event \<mapsto> cbs @ [callback]) \<rparr>)
      | Inherited \<Rightarrow> Threw (TypeError ''this.events[event].push is not a function'') st)"

text \<open>The closure that \<open>subscribe(event, callback)\<close> returns.\<close>

definition unsubscribe :: "string \<Rightarrow> cbid \<Rightarrow> 'w bus_state \<Rightarrow> 'w bus_state outcome" where
  "unsubscribe event callback st =
     (case js_get (events st) event of
        Own cbs \<Rightarrow>
          Returned (st\<lparr> events := (events st)(event \<mapsto> filter (\<lambda>cb. cb \<noteq> callback) cbs) \<rparr>)
      | Inherited \<Rightarrow> Threw (TypeError ''this.events[event].filter is not a function'') st
      | Undefined \<Rightarrow> Threw (TypeError ''Cannot read properties of undefined'') st)"

text \<open>
  \<open>try { body } catch (error) { handler }\<close>, and \<open>Array.prototype.forEach\<close>: an exception
  thrown by the loop body ends the loop and propagates. The loop visits the elements the
  array had when the loop began: \<open>subscribe\<close> only appends (appended elements are not
  visited), and \<open>unsubscribe\<close> stores a new array. Beside the outcome, the loop returns the
  elements its body was called on, in order.
\<close>

definition try_catch ::
  "('s \<Rightarrow> 's outcome) \<Rightarrow> (exn \<Rightarrow> 's \<Rightarrow> 's outcome) \<Rightarrow> 's \<Rightarrow> 's outcome" where
  "try_catch body handler s =
     (case body s of Returned s' \<Rightarrow> Returned s' | Threw e s' \<Rightarrow> handler e s')"

fun forEach :: "('a \<Rightarrow> 's \<Rightarrow> 's outcome) \<Rightarrow> 'a list \<Rightarrow> 's \<Rightarrow> 'a list \<Rightarrow> 's outcome \<times> 'a list" where
  "forEach f [] s called = (Returned s, called)"
| "forEach f (x # xs) s called =
     (case f x s of
        Returned s' \<Rightarrow> forEach f xs s' (called @ [x])
      | Threw e s' \<Rightarrow> (Threw e s', called @ [x]))"

definition console_error :: "string \<Rightarrow> exn \<Rightarrow> 'w bus_state \<Rightarrow> 'w bus_state outcome" where
  "console_error msg e st = Returned (st\<lparr> bus_console := bus_console st @ [(msg, e)] \<rparr>)"

definition publish ::
  "('d, 'w) callbacks \<Rightarrow> string \<Rightarrow> 'd \<Rightarrow> 'w bus_state \<Rightarrow> 'w bus_state outcome \<times> cbid list" where
  "publish code event d st =
     (case js_get (events st) event of
        Undefined \<Rightarrow> (Returned st, [])
      | Inherited \<Rightarrow> (Threw (TypeError ''this.events[event].forEach is not a function'') st, [])
      | Own cbs \<Rightarrow>
          forEach (\<lambda>callback.
                     try_catch (code callback d)
                       (console_error (''Error in event handler for '' @ event @ '':'')))
                  cbs st [])"

text \<open>The subscribers of an event: the callbacks stored for it, none when nothing is stored.\<close>

definition subscribers :: "'w bus_state \<Rightarrow> string \<Rightarrow> cbid list" where
  "subscribers st event = (case events st event of Some cbs \<Rightarrow> cbs | None \<Rightarrow> [])"



section \<open>The page (index.html) and its basic and inline layers\<close>

subsection \<open>Strings and lists\<close>

fun starts_with :: "string \<Rightarrow> string \<Rightarrow> bool" where
  "starts_with [] s = True"
| "starts_with (p # ps) [] = False"
| "starts_with (p # ps) (c # cs) = (p = c \<and> starts_with ps cs)"

text \<open>\<open>s.replace(pat, rep)\<close> with a string pattern: the first occurrence only.\<close>

fun replace_first :: "string \<Rightarrow> string \<Rightarrow> string \<Rightarrow> string" where
  "replace_first pat rep [] = (if pat = [] then rep else [])"
| "replace_first pat rep (c # cs) =
     (if starts_with pat (c # cs) then rep @ drop (length pat) (c # cs)
      else c # replace_first pat rep cs)"

fun contains :: "string \<Rightarrow> string \<Rightarrow> bool" where
  "contains pat [] = (pat = [])"
| "contains pat (c # cs) = (starts_with pat (c # cs) \<or> contains pat cs)"

fun first_index :: "('a \<Rightarrow> bool) \<Rightarrow> 'a list \<Rightarrow> nat option" where
  "first_index P [] = None"
| "first_index P (x # xs) = (if P x then Some 0 else map_option Suc (first_index P xs))"

definition seq :: "('s \<Rightarrow> 's) list \<Rightarrow> 's \<Rightarrow> 's" where
  "seq steps s = foldl (\<lambda>s step. step s) s steps"

subsection \<open>The document\<close>

text \<open>
  The elements the scripts touch. \<open>NavLink l\<close> is the \<open>l\<close>-th \<open>nav a\<close> element,
  \<open>ModalEl i\<close> the \<open>i\<close>-th element of class \<open>modal\<close> (the backdrop), \<open>Content i\<close> its
  \<open>.modal-content\<close> panel, \<open>Inner i k\<close> another descendant of it, \<open>CloseBtn j\<close> the \<open>j\<close>-th
  element of class \<open>close\<close>, all in document order.
\<close>

datatype node =
    Body | NavLink nat | ModalEl nat | Content nat | Inner nat nat | CloseBtn nat
  | EmergencyBtn | OtherEl nat

text \<open>
  An inline style (\<open>element.style\<close>) is the list of its declarations. Assigning the empty
  string removes the declaration. The \<open>style\<close> attribute is the serialisation of the list.
\<close>

type_synonym style = "(string \<times> string) list"

definition style_get :: "style \<Rightarrow> string \<Rightarrow> string" where
  "style_get st p = (case map_of st p of Some v \<Rightarrow> v | None \<Rightarrow> [])"

fun style_set :: "style \<Rightarrow> string \<Rightarrow> string \<Rightarrow> style" where
  "style_set [] p v = (if v = [] then [] else [(p, v)])"
| "style_set ((q, w) # st) p v =
     (if q = p then (if v = [] then st else (p, v) # st) else (q, w) # style_set st p v)"

fun style_text :: "style \<Rightarrow> string" where
  "style_text [] = []"
| "style_text ((p, v) # st) =
     p @ '': '' @ v @ '';'' @ (if st = [] then [] else '' '' @ style_text st)"

text \<open>
  A modal: its id, inline style and \<open>aria-hidden\<close> attribute, the class list of its
  content panel (\<open>None\<close> when it has no \<open>.modal-content\<close>), and its descendants that match
  the focusable selector \<open>button, [href], input, select, textarea,
  [tabindex]:not([tabindex="-1"])\<close>, each with its \<open>disabled\<close> flag. The style sheet gives
  \<open>.modal { display: none }\<close>, so a modal is rendered only when its inline display says so.
\<close>

record modal =
  mid :: string
  mstyle :: style
  aria_hidden :: "string option"
  content_classes :: "string list option"
  focusables :: "(nat \<times> bool) list"

definition computed_display :: "modal \<Rightarrow> string" where
  "computed_display m =
     (if style_get (mstyle m) ''display'' = [] then ''none'' else style_get (mstyle m) ''display'')"

record close_btn =
  data_modal :: "string option"
  closest_modal :: "nat option"

datatype scroll = NoScroll | ScrollTop | ScrollIntoView string | AnchorJump string

text \<open>
  The callbacks given to \<open>setTimeout\<close>: the focus move of the basic layer for a modal,
  the focus move of a Modal component, and the end of an animation of a Modal component
  (with the class to remove, and whether the close callback is to be called).
\<close>

datatype task = BasicFocusFirst nat | ModalFocusFirst nat | AnimationEnd nat string bool

datatype carg = Str string | El node

text \<open>
  The Modal components of the enhanced layer (UIComponents.js), one per modal element
  the layer was attached to, with their options and the element captured at open.
\<close>

record modal_comp =
  element :: nat
  closeOnEscape :: bool
  closeOnBackdrop :: bool
  focusTrap :: bool
  animation :: string
  animationDuration :: nat
  previouslyFocused :: "node option"

text \<open>
  The state of the page. \<open>overflow\<close> is \<open>document.body.style.overflow\<close>, \<open>active\<close> is
  \<open>document.activeElement\<close>; \<open>attached n\<close> says that \<open>n\<close> is in the document and able to
  take focus. \<open>dom_writes\<close> and \<open>focus_calls\<close> list every style or attribute write and
  every call of \<open>focus()\<close>, so that a step that writes a value again is told from a step
  that does nothing. \<open>prevented\<close> is the \<open>defaultPrevented\<close> flag of the event being
  dispatched, \<open>timers\<close> the pending \<open>setTimeout\<close> callbacks with their due times,
  \<open>uncaught\<close> the exceptions that escaped from event listeners and timer callbacks.
  The last fields belong to the enhanced layer: its Modal components, whether its
  Navigation component is attached to the \<open>nav\<close> element,
  the AppState entries \<open>activeModal\<close> and \<open>navigation.currentSection\<close>, and the errors its
  listener wrappers caught and passed to \<open>Logger.error\<close>.
\<close>

record page =
  nav_links :: "string option list"
  modals :: "modal list"
  close_btns :: "close_btn list"
  emergency :: "style option"
  element_ids :: "string list"
  overflow :: string
  active :: node
  attached :: "node \<Rightarrow> bool"
  dom_writes :: "(node \<times> string \<times> string) list"
  focus_calls :: "node list"
  scrolled :: scroll
  prevented :: bool
  now :: nat
  timers :: "(nat \<times> task) list"
  page_console :: "(string \<times> carg list) list"
  uncaught :: "exn list"
  comps :: "modal_comp list"
  nav_attached :: bool
  activeModal :: "string option"
  currentSection :: string
  logged_errors :: "(string \<times> exn) list"

subsection \<open>Primitive effects\<close>

definition clog :: "string \<Rightarrow> carg list \<Rightarrow> page \<Rightarrow> page" where
  "clog method args s = s\<lparr> page_console := page_console s @ [(method, args)] \<rparr>"

definition set_modal_style :: "nat \<Rightarrow> string \<Rightarrow> string \<Rightarrow> page \<Rightarrow> page" where
  "set_modal_style i p v s =
     s\<lparr> modals := (modals s)[i := (modals s ! i)\<lparr> mstyle := style_set (mstyle (modals s ! i)) p v \<rparr>],
        dom_writes := dom_writes s @ [(ModalEl i, p, v)] \<rparr>"

definition set_aria_hidden :: "nat \<Rightarrow> string \<Rightarrow> page \<Rightarrow> page" where
  "set_aria_hidden i v s =
     s\<lparr> modals := (modals s)[i := (modals s ! i)\<lparr> aria_hidden := Some v \<rparr>],
        dom_writes := dom_writes s @ [(ModalEl i, ''aria-hidden'', v)] \<rparr>"

definition set_overflow :: "string \<Rightarrow> page \<Rightarrow> page" where
  "set_overflow v s = s\<lparr> overflow := v, dom_writes := dom_writes s @ [(Body, ''overflow'', v)] \<rparr>"

text \<open>
  \<open>const emergencyBtn = document.getElementById('emergency-close');
  if (emergencyBtn) emergencyBtn.style.display = v\<close>
\<close>

definition set_emergency_display :: "string \<Rightarrow> page \<Rightarrow> page" where
  "set_emergency_display v s =
     (case emergency s of
        None \<Rightarrow> s
      | Some st \<Rightarrow> s\<lparr> emergency := Some (style_set st ''display'' v),
                      dom_writes := dom_writes s @ [(EmergencyBtn, ''display'', v)] \<rparr>)"

text \<open>
  \<open>n.focus()\<close> takes effect on an attached element that is rendered and not disabled: an
  element inside a modal that is not displayed cannot take focus.
\<close>

definition rendered :: "page \<Rightarrow> nat \<Rightarrow> bool" where
  "rendered s i = (i < length (modals s) \<and> computed_display (modals s ! i) \<noteq> ''none'')"

fun can_take_focus :: "page \<Rightarrow> node \<Rightarrow> bool" where
  "can_take_focus s (ModalEl i) = (attached s (ModalEl i) \<and> rendered s i)"
| "can_take_focus s (Content i) = (attached s (Content i) \<and> rendered s i)"
| "can_take_focus s (Inner i k) =
     (attached s (Inner i k) \<and> rendered s i \<and> (k, True) \<notin> set (focusables (modals s ! i)))"
| "can_take_focus s n = attached s n"

definition focus :: "node \<Rightarrow> page \<Rightarrow> page" where
  "focus n s =
     s\<lparr> focus_calls := focus_calls s @ [n],
        active := (if can_take_focus s n then n else active s) \<rparr>"

definition set_timeout :: "nat \<Rightarrow> task \<Rightarrow> page \<Rightarrow> page" where
  "set_timeout delay t s = s\<lparr> timers := timers s @ [(now s + delay, t)] \<rparr>"

text \<open>
  \<open>document.getElementById(id)\<close> for the id of a modal: the first modal with that id.
  (In this document only the modals carry the ids the scripts look modals up by.)
\<close>

definition getElementById :: "page \<Rightarrow> string \<Rightarrow> nat option" where
  "getElementById s i = first_index (\<lambda>m. mid m = i) (modals s)"

text \<open>\<open>document.querySelector('nav a[href="h"]')\<close>: the first nav link whose href is \<open>h\<close>.\<close>

definition querySelector_nav_a :: "page \<Rightarrow> string \<Rightarrow> nat option" where
  "querySelector_nav_a s h = first_index (\<lambda>a. a = Some h) (nav_links s)"

text \<open>\<open>document.querySelector('.modal[style*="flex"]')\<close>\<close>

definition querySelector_modal_flex :: "page \<Rightarrow> nat option" where
  "querySelector_modal_flex s =
     first_index (\<lambda>m. contains ''flex'' (style_text (mstyle m))) (modals s)"

definition forEach_modal :: "(nat \<Rightarrow> page \<Rightarrow> page) \<Rightarrow> page \<Rightarrow> page" where
  "forEach_modal f s = fold f [0..<length (modals s)] s"

subsection \<open>The navigation map\<close>

text \<open>
  \<open>navMap\<close> is an object literal, so \<open>navMap[hash]\<close> also finds the members inherited from
  \<open>Object.prototype\<close>; such a member is truthy, and where the scripts use it as an element
  id it is converted to its source text.
\<close>

definition navMap :: "string \<Rightarrow> string option" where
  "navMap = [''experience'' \<mapsto> ''modal-experience'',
             ''education'' \<mapsto> ''modal-education'',
             ''projects'' \<mapsto> ''modal-projects'',
             ''skills'' \<mapsto> ''modal-skills'',
             ''contact'' \<mapsto> ''modal-contact'']"

definition native_text :: "string \<Rightarrow> string" where
  "native_text name =
     (if name = ''__proto__'' then ''[object Object]''
      else if name = ''constructor'' then ''function Object() { [native code] }''
      else ''function '' @ name @ ''() { [native code] }'')"

definition navMap_at :: "string \<Rightarrow> string option" where
  "navMap_at hash =
     (case js_get navMap hash of
        Own target \<Rightarrow> Some target
      | Inherited \<Rightarrow> Some (native_text hash)
      | Undefined \<Rightarrow> None)"

subsection \<open>The basic layer (main.js)\<close>

text \<open>\<open>window.closeAllModals\<close>\<close>

definition closeAllModals :: "page \<Rightarrow> page" where
  "closeAllModals =
     seq [clog ''log'' [Str ''Emergency close all modals''],
          forEach_modal (\<lambda>i. seq [set_modal_style i ''display'' ''none'',
                                   set_aria_hidden i ''true'']),
          set_overflow [],
          set_emergency_display ''none'',
          clog ''log'' [Str ''All modals closed'']]"

text \<open>The helper \<open>closeModal(modal)\<close> of \<open>initBasicPortfolio\<close>; \<open>None\<close> is a null argument.\<close>

definition closeModal :: "nat option \<Rightarrow> page \<Rightarrow> page" where
  "closeModal modal s =
     (case modal of
        None \<Rightarrow> seq [clog ''log'' [Str ''closeModal called for:''],
                     clog ''error'' [Str ''No modal provided to closeModal'']] s
      | Some i \<Rightarrow>
          seq [clog ''log'' [Str ''closeModal called for:'', Str (mid (modals s ! i))],
               set_modal_style i ''display'' ''none'',
               set_aria_hidden i ''true'',
               set_overflow [],
               set_emergency_display ''none'',
               (\<lambda>s'. case querySelector_nav_a s'
                              (''#'' @ replace_first ''modal-'' [] (mid (modals s' ! i))) of
                        Some l \<Rightarrow> focus (NavLink l) s'
                      | None \<Rightarrow> s'),
               clog ''log'' [Str ''Modal closed successfully:'', Str (mid (modals s ! i))]] s)"

text \<open>The click listener on a navigation link (\<open>nav a[href^="#"]\<close>).\<close>

definition basic_nav_click :: "nat \<Rightarrow> page \<Rightarrow> page" where
  "basic_nav_click l s =
     (case nav_links s ! l of
        None \<Rightarrow> s
      | Some href \<Rightarrow>
          if href = [] \<or> \<not> starts_with ''#'' href then s
          else
            (let hash = replace_first ''#'' [] href;
                 s1 = clog ''log'' [Str ''Navigation clicked:'', Str hash] s
             in case navMap_at hash of
                 Some target \<Rightarrow>
                   (let s2 = s1\<lparr> prevented := True \<rparr>
                    in case getElementById s2 target of
                          Some i \<Rightarrow>
                           seq [clog ''log'' [Str ''Opening modal:'', Str target],
                                clog ''log'' [Str ''Modal element:'', El (ModalEl i)],
                                (\<lambda>s'. clog ''log'' [Str ''Modal computed style before:'',
                                         Str (computed_display (modals s' ! i))] s'),
                                set_modal_style i ''display'' ''flex'',
                                set_modal_style i ''opacity'' ''1'',
                                set_modal_style i ''z-index'' ''10000'',
                                (\<lambda>s'. clog ''log'' [Str ''Modal style after:'',
                                         Str (style_get (mstyle (modals s' ! i)) ''display'')] s'),
                                (\<lambda>s'. clog ''log'' [Str ''Modal computed style after:'',
                                         Str (computed_display (modals s' ! i))] s'),
                                set_emergency_display ''flex'',
                                set_aria_hidden i ''false'',
                                set_overflow ''hidden'',
                                set_timeout 100 (BasicFocusFirst i)] s2
                        | None \<Rightarrow> clog ''error'' [Str ''Modal not found:'', Str target] s2)
               | None \<Rightarrow>
                   if hash = ''hero''
                   then s1\<lparr> prevented := True, scrolled := ScrollTop \<rparr>
                   else s1))"

text \<open>
  The callback of \<open>setTimeout(..., 100)\<close> set when a modal is shown: focus the first
  descendant matching the focusable selector.
\<close>

definition basic_focus_first :: "nat \<Rightarrow> page \<Rightarrow> page" where
  "basic_focus_first i s =
     (case focusables (modals s ! i) of
        [] \<Rightarrow> s
      | (k, dis) # rest \<Rightarrow> focus (Inner i k) s)"

text \<open>
  The click listener on a close button. It stops the propagation of the event at once,
  so no listener registered after it on the button runs and the event does not reach the
  modal.
\<close>

definition basic_close_click :: "nat \<Rightarrow> page \<Rightarrow> page" where
  "basic_close_click j s =
     (let s1 = seq [(\<lambda>s'. s'\<lparr> prevented := True \<rparr>),
                    clog ''log'' [Str ''Close button clicked''],
                    clog ''log'' [Str ''Event target:'', El (CloseBtn j)],
                    clog ''log'' [Str ''Button element:'', El (CloseBtn j)]] s
      in case querySelector_modal_flex s1 of
           Some i \<Rightarrow>
             closeModal (Some i)
               (clog ''log'' [Str ''Force closing open modal:'', Str (mid (modals s1 ! i))] s1)
         | None \<Rightarrow>
             (case (case data_modal (close_btns s1 ! j) of
                      None \<Rightarrow> None
                    | Some modalId \<Rightarrow>
                        if modalId = [] then None
                        else map_option (\<lambda>i. (modalId, i)) (getElementById s1 modalId)) of
                Some (modalId, i) \<Rightarrow>
                  closeModal (Some i)
                    (clog ''log'' [Str ''Closing modal by data-modal:'', Str modalId] s1)
              | None \<Rightarrow>
                  (case closest_modal (close_btns s1 ! j) of
                     Some i \<Rightarrow>
                       closeModal (Some i)
                         (clog ''log'' [Str ''Closing modal by closest:'',
                                         Str (mid (modals s1 ! i))] s1)
                   | None \<Rightarrow>
                       closeAllModals
                         (clog ''error''
                            [Str ''Could not find modal to close - using emergency close''] s1))))"

text \<open>The click listener on a modal: \<open>t\<close> is the event target.\<close>

definition basic_modal_click :: "nat \<Rightarrow> node \<Rightarrow> page \<Rightarrow> page" where
  "basic_modal_click i t s =
     (let s1 = clog ''log'' [Str ''Modal clicked, target:'', El t, Str ''modal:'', El (ModalEl i)] s
      in if t = ModalEl i
         then closeModal (Some i)
                (clog ''log'' [Str ''Backdrop clicked, closing modal:'', Str (mid (modals s1 ! i))] s1)
         else s1)"

text \<open>The keydown listener on the document.\<close>

definition basic_keydown :: "string \<Rightarrow> page \<Rightarrow> page" where
  "basic_keydown key s =
     (let s1 = clog ''log'' [Str ''Key pressed:'', Str key] s
      in if key = ''Escape''
         then closeAllModals (clog ''log'' [Str ''Escape key pressed - emergency close''] s1)
         else s1)"

subsection \<open>The inline layer (the script element of index.html)\<close>

text \<open>
  The inline listeners do not test what their lookups return: a missing href or a
  missing modal is a TypeError thrown out of the listener.
\<close>

definition inline_nav_click :: "nat \<Rightarrow> page \<Rightarrow> page outcome" where
  "inline_nav_click l s =
     (case nav_links s ! l of
        None \<Rightarrow> Threw (TypeError ''Cannot read properties of null (reading replace)'') s
      | Some href \<Rightarrow>
          (case navMap_at (replace_first ''#'' [] href) of
             None \<Rightarrow> Returned s
           | Some target \<Rightarrow>
               let s1 = s\<lparr> prevented := True \<rparr>
               in (case getElementById s1 target of
                     None \<Rightarrow> Threw (TypeError ''Cannot read properties of null (reading style)'') s1
                   | Some i \<Rightarrow> Returned (set_modal_style i ''display'' ''flex'' s1))))"

definition inline_close_click :: "nat \<Rightarrow> page \<Rightarrow> page outcome" where
  "inline_close_click j s =
     (case getElementById s (case data_modal (close_btns s ! j) of
                               None \<Rightarrow> ''undefined'' | Some modalId \<Rightarrow> modalId) of
        None \<Rightarrow> Threw (TypeError ''Cannot read properties of null (reading style)'') s
      | Some i \<Rightarrow> Returned (set_modal_style i ''display'' ''none'' s))"

definition inline_modal_click :: "nat \<Rightarrow> node \<Rightarrow> page \<Rightarrow> page" where
  "inline_modal_click i t s = (if t = ModalEl i then set_modal_style i ''display'' ''none'' s else s)"

subsection \<open>Dispatching an event to the listeners of both layers\<close>

text \<open>
  main.js is loaded before the inline script, so on every element the listener of the
  basic layer was registered first and runs first. An exception thrown by a listener is
  reported and the remaining listeners still run. The listeners of the resume dropdown
  only toggle a class of the dropdown and are left out; the touchstart listener of a
  close button dispatches a click.
\<close>

definition report :: "page outcome \<Rightarrow> page" where
  "report r = (case r of Returned s \<Rightarrow> s | Threw e s \<Rightarrow> s\<lparr> uncaught := uncaught s @ [e] \<rparr>)"

text \<open>
  The default action of a click on a link whose href is a fragment, taken when no
  listener prevented it: the browser jumps to the fragment. (A link to another document
  leaves the page; that is outside this model.)
\<close>

definition default_action :: "nat \<Rightarrow> page \<Rightarrow> page" where
  "default_action l s =
     (case nav_links s ! l of
        Some href \<Rightarrow>
          if \<not> prevented s \<and> starts_with ''#'' href
          then s\<lparr> scrolled := AnchorJump (drop 1 href) \<rparr> else s
      | None \<Rightarrow> s)"

fun modal_of :: "node \<Rightarrow> nat option" where
  "modal_of (ModalEl i) = Some i"
| "modal_of (Content i) = Some i"
| "modal_of (Inner i k) = Some i"
| "modal_of n = None"

definition page_listeners :: "node \<Rightarrow> page \<Rightarrow> page" where
  "page_listeners t s =
     (case t of
        NavLink l \<Rightarrow>
          if l < length (nav_links s)
          then report (inline_nav_click l (basic_nav_click l s))
          else s
      | CloseBtn j \<Rightarrow> if j < length (close_btns s) then basic_close_click j s else s
      | _ \<Rightarrow>
          (case modal_of t of
             Some i \<Rightarrow>
               if i < length (modals s)
               then inline_modal_click i t (basic_modal_click i t s)
               else s
           | None \<Rightarrow> s))"

definition finish_click :: "node \<Rightarrow> page \<Rightarrow> page" where
  "finish_click t s =
     (case t of
        NavLink l \<Rightarrow> if l < length (nav_links s) then default_action l s else s
      | _ \<Rightarrow> s)"

definition page_click :: "node \<Rightarrow> page \<Rightarrow> page" where
  "page_click t s = finish_click t (page_listeners t (s\<lparr> prevented := False \<rparr>))"

definition page_keydown :: "string \<Rightarrow> page \<Rightarrow> page" where
  "page_keydown key s = basic_keydown key (s\<lparr> prevented := False \<rparr>)"

text \<open>
  The document of index.html as parsed: nine links in the navigation, five modals of
  which only \<open>modal-projects\<close> has a style attribute, one close button in each modal,
  no element with id \<open>emergency-close\<close>. The contact modal holds three links.
\<close>

definition index_modal :: "string \<Rightarrow> style \<Rightarrow> (nat \<times> bool) list \<Rightarrow> modal" where
  "index_modal i st fs =
     \<lparr> mid = i, mstyle = st, aria_hidden = None, content_classes = Some [''modal-content''],
       focusables = fs \<rparr>"

definition index_html :: page where
  "index_html =
     \<lparr> nav_links = [Some ''#hero'', Some ''#experience'', Some ''#education'', Some ''#projects'',
                    Some ''#skills'', Some ''#contact'', Some ''#'',
                    Some ''assets/resume.pdf'', Some ''assets/resume.pdf''],
       modals = [index_modal ''modal-experience'' [] [],
                 index_modal ''modal-education'' [] [],
                 index_modal ''modal-projects'' [(''align-items'', ''flex-start'')] [],
                 index_modal ''modal-skills'' [] [],
                 index_modal ''modal-contact'' [] [(0, False), (1, False), (2, False)]],
       close_btns = [\<lparr> data_modal = Some ''modal-experience'', closest_modal = Some 0 \<rparr>,
                     \<lparr> data_modal = Some ''modal-education'', closest_modal = Some 1 \<rparr>,
                     \<lparr> data_modal = Some ''modal-projects'', closest_modal = Some 2 \<rparr>,
                     \<lparr> data_modal = Some ''modal-skills'', closest_modal = Some 3 \<rparr>,
                     \<lparr> data_modal = Some ''modal-contact'', closest_modal = Some 4 \<rparr>],
       emergency = None,
       element_ids = [''hero'', ''about'', ''resume''],
       overflow = [],
       active = Body,
       attached = (\<lambda>n. True),
       dom_writes = [],
       focus_calls = [],
       scrolled = NoScroll,
       prevented = False,
       now = 0,
       timers = [],
       page_console = [],
       uncaught = [],
       comps = [],
       nav_attached = False,
       activeModal = None,
       currentSection = ''hero'',
       logged_errors = [] \<rparr>"

text \<open>A modal counts as open when its inline display is \<open>flex\<close> (\<open>Modal.isOpen\<close>).\<close>

definition is_open :: "modal \<Rightarrow> bool" where
  "is_open m = (style_get (mstyle m) ''display'' = ''flex'')"

definition open_modals :: "page \<Rightarrow> nat list" where
  "open_modals s = filter (\<lambda>i. is_open (modals s ! i)) [0..<length (modals s)]"


text \<open>The exception an outcome carries, if any.\<close>

definition thrown :: "'s outcome \<Rightarrow> exn option" where
  "thrown r = (case r of Returned s \<Rightarrow> None | Threw e s \<Rightarrow> Some e)"


text \<open>What the basic layer writes to a modal it shows.\<close>

definition shown :: "modal \<Rightarrow> modal" where
  "shown m = m\<lparr> mstyle := style_set (style_set (style_set (mstyle m) ''display'' ''flex'')
                              ''opacity'' ''1'') ''z-index'' ''10000'',
                aria_hidden := Some ''false'' \<rparr>"


text \<open>What the basic layer writes to a modal it closes.\<close>

definition hidden :: "modal \<Rightarrow> modal" where
  "hidden m = m\<lparr> mstyle := style_set (mstyle m) ''display'' ''none'', aria_hidden := Some ''true'' \<rparr>"

text \<open>The page of index.html with only its first two modals left in the document.\<close>

definition index_html_two_modals :: page where
  "index_html_two_modals =
     index_html\<lparr> modals := take 2 (modals index_html),
                 close_btns := take 2 (close_btns index_html) \<rparr>"


text \<open>
  What the claims observe of the page: the id, inline style and \<open>aria-hidden\<close> of every
  modal, and the body's overflow.
\<close>

definition look :: "page \<Rightarrow> (string \<times> style \<times> string option) list \<times> string" where
  "look p = (map (\<lambda>m. (mid m, mstyle m, aria_hidden m)) (modals p), overflow p)"



definition skills_open :: page where
  "skills_open = page_click (NavLink 4) index_html"


section \<open>The enhanced layer (UIComponents.js)\<close>

text \<open>
  The enhanced layer works on the page and on the event bus: its state is a
  \<open>page bus_state\<close>. The listeners subscribed to the bus are not part of these sources,
  so their code is a parameter \<open>code\<close>. The payload of an event is the modal id it carries
  (\<open>None\<close> for \<open>null\<close>).
\<close>

type_synonym app = "page bus_state"

type_synonym app_callbacks = "(string option, page) callbacks"

definition in_world :: "(page \<Rightarrow> page) \<Rightarrow> app \<Rightarrow> app" where
  "in_world f st = st\<lparr> world := f (world st) \<rparr>"


subsection \<open>Modal\<close>

definition Modal_isOpen :: "nat \<Rightarrow> page \<Rightarrow> bool" where
  "Modal_isOpen c p = is_open (modals p ! element (comps p ! c))"

text \<open>
  \<open>applyAnimation(direction, callback)\<close>: without a content panel it returns at once and
  the callback is never called.
\<close>

definition applyAnimation :: "nat \<Rightarrow> string \<Rightarrow> bool \<Rightarrow> page \<Rightarrow> page" where
  "applyAnimation c direction callback p =
     (let comp = comps p ! c; e = element comp
      in case content_classes (modals p ! e) of
           None \<Rightarrow> p
         | Some classes \<Rightarrow>
             let animationClass = ''modal-'' @ animation comp @ ''-'' @ direction
             in set_timeout (animationDuration comp) (AnimationEnd c animationClass callback)
                  (p\<lparr> modals := (modals p)
                         [e := (modals p ! e)
                            \<lparr> content_classes :=
                                Some (if animationClass \<in> set classes then classes
                                      else classes @ [animationClass]) \<rparr>] \<rparr>))"


definition Modal_close :: "nat \<Rightarrow> page \<Rightarrow> page" where
  "Modal_close c p = (if \<not> Modal_isOpen c p then p else applyAnimation c ''out'' True p)"

text \<open>The callback that \<open>close\<close> hands to \<open>applyAnimation\<close>.\<close>

definition close_callback :: "app_callbacks \<Rightarrow> nat \<Rightarrow> app \<Rightarrow> app outcome" where
  "close_callback code c st =
     (let p = world st;
          e = element (comps p ! c);
          p1 = seq [set_modal_style e ''display'' ''none'',
                    set_aria_hidden e ''true'',
                    (\<lambda>p'. case previouslyFocused (comps p' ! c) of
                             Some n \<Rightarrow> focus n p'
                           | None \<Rightarrow> p'),
                    set_overflow [],
                    (\<lambda>p'. p'\<lparr> activeModal := None \<rparr>)] p
      in fst (publish code ''modal:closed'' (Some (mid (modals p1 ! e))) (st\<lparr> world := p1 \<rparr>)))"

text \<open>
  \<open>focusFirstElement\<close>: \<open>getFocusableElements\<close> keeps the matching descendants that are not
  disabled and have an \<open>offsetParent\<close>, which an element of a modal that is not rendered
  has not.
\<close>

definition focusFirstElement :: "nat \<Rightarrow> page \<Rightarrow> page" where
  "focusFirstElement c p =
     (let e = element (comps p ! c)
      in if rendered p e
         then (case filter (\<lambda>f. \<not> snd f) (focusables (modals p ! e)) of
                 [] \<Rightarrow> p
               | f # rest \<Rightarrow> focus (Inner e (fst f)) p)
         else p)"

text \<open>
  \<open>render()\<close>, called once when the component is initialised. (It also sets the \<open>role\<close>
  and \<open>aria-modal\<close> attributes, which nothing reads.)
\<close>

definition Modal_render :: "nat \<Rightarrow> page \<Rightarrow> page" where
  "Modal_render c p =
     (let e = element (comps p ! c)
      in seq [set_aria_hidden e ''true'', set_modal_style e ''display'' ''none''] p)"

definition default_comp :: "nat \<Rightarrow> modal_comp" where
  "default_comp e =
     \<lparr> element = e, closeOnEscape = True, closeOnBackdrop = True, focusTrap = True,
       animation = ''fade'', animationDuration = 300, previouslyFocused = None \<rparr>"

text \<open>
  The enhanced layer attached to every modal and to the navigation, as the component
  factory's discovery creates them, with the default options.
\<close>

definition attach_enhanced :: "page \<Rightarrow> page" where
  "attach_enhanced p =
     (let p1 = p\<lparr> comps := map default_comp [0..<length (modals p)], nav_attached := True \<rparr>
      in fold Modal_render [0..<length (modals p)] p1)"

subsection \<open>Navigation\<close>

definition modalMap :: "string \<Rightarrow> string option" where
  "modalMap = [''experience'' \<mapsto> ''modal-experience'',
               ''education'' \<mapsto> ''modal-education'',
               ''projects'' \<mapsto> ''modal-projects'',
               ''skills'' \<mapsto> ''modal-skills'',
               ''contact'' \<mapsto> ''modal-contact'']"

definition modalMap_at :: "string \<Rightarrow> string option" where
  "modalMap_at section =
     (case js_get modalMap section of
        Own target \<Rightarrow> Some target
      | Inherited \<Rightarrow> Some (native_text section)
      | Undefined \<Rightarrow> None)"

text \<open>
  \<open>document.querySelector(href)\<close> for an href that begins with \<open>#\<close>: the element with
  that id, if any; the selector \<open>#\<close> alone is a syntax error. (Ids are taken to be plain
  identifiers, which need no escaping in a selector.)
\<close>

definition querySelector_hash :: "page \<Rightarrow> string \<Rightarrow> exn + string option" where
  "querySelector_hash p href =
     (if href = ''#'' then Inl (SyntaxError ''# is not a valid selector'')
      else if drop 1 href \<in> set (element_ids p) \<or> drop 1 href \<in> set (map mid (modals p))
      then Inr (Some (drop 1 href))
      else Inr None)"

text \<open>
  \<open>handleNavigation(link)\<close>. Both branches of \<open>scrollToElement\<close> scroll the element into
  view; they differ in the animation only.
\<close>

definition handleNavigation :: "app_callbacks \<Rightarrow> nat \<Rightarrow> app \<Rightarrow> app outcome" where
  "handleNavigation code l st =
     (case nav_links (world st) ! l of
        None \<Rightarrow> Threw (TypeError ''Cannot read properties of null (reading replace)'') st
      | Some href \<Rightarrow>
          (let section = replace_first ''#'' [] href
           in case modalMap_at section of
               Some target \<Rightarrow> fst (publish code ''modal:open'' (Some target) st)
             | None \<Rightarrow>
                 (case querySelector_hash (world st) href of
                    Inl e \<Rightarrow> Threw e st
                  | Inr None \<Rightarrow> Returned st
                  | Inr (Some targetElement) \<Rightarrow>
                      Returned (in_world (\<lambda>p. p\<lparr> scrolled := ScrollIntoView targetElement,
                                                  currentSection := section \<rparr>) st))))"

subsection \<open>Listeners and timers\<close>

text \<open>
  Every listener of a component runs inside the wrapper of
  \<open>BaseComponent.addEventListener\<close>, which catches what the handler throws and passes it
  to \<open>Logger.error\<close>.
\<close>

definition wrapped :: "string \<Rightarrow> app outcome \<Rightarrow> app" where
  "wrapped event r =
     (case r of
        Returned st \<Rightarrow> st
      | Threw e st \<Rightarrow>
          in_world (\<lambda>p. p\<lparr> logged_errors :=
                             logged_errors p @ [(''Error in event handler for '' @ event, e)] \<rparr>) st)"

definition Modal_backdrop_listener :: "nat \<Rightarrow> node \<Rightarrow> app \<Rightarrow> app" where
  "Modal_backdrop_listener c t st =
     (let comp = comps (world st) ! c
      in if closeOnBackdrop comp \<and> modal_of t = Some (element comp)
         then wrapped ''click''
                (Returned (if t = ModalEl (element comp) then in_world (Modal_close c) st else st))
         else st)"

definition Modal_escape_listener :: "nat \<Rightarrow> string \<Rightarrow> app \<Rightarrow> app" where
  "Modal_escape_listener c key st =
     (let comp = comps (world st) ! c
      in if closeOnEscape comp
         then wrapped ''keydown''
                (Returned (if key = ''Escape'' \<and> Modal_isOpen c (world st)
                           then in_world (Modal_close c) st else st))
         else st)"

definition Navigation_listener :: "app_callbacks \<Rightarrow> nat \<Rightarrow> app \<Rightarrow> app" where
  "Navigation_listener code l st =
     (case nav_links (world st) ! l of
        None \<Rightarrow> st
      | Some href \<Rightarrow>
          if nav_attached (world st) \<and> starts_with ''#'' href
          then wrapped ''click''
                 (handleNavigation code l (in_world (\<lambda>p. p\<lparr> prevented := True \<rparr>) st))
          else st)"

text \<open>
  The listeners of the enhanced layer are registered after those of the basic and inline
  layers, so they run after them. The click listener a Modal puts on its close button
  never runs: the basic layer's listener on the button stops the event.
\<close>

definition enhanced_listeners :: "app_callbacks \<Rightarrow> node \<Rightarrow> app \<Rightarrow> app" where
  "enhanced_listeners code t st =
     (case t of
        NavLink l \<Rightarrow> if l < length (nav_links (world st)) then Navigation_listener code l st else st
      | CloseBtn j \<Rightarrow> st
      | _ \<Rightarrow> fold (\<lambda>c. Modal_backdrop_listener c t) [0..<length (comps (world st))] st)"

definition app_click :: "app_callbacks \<Rightarrow> node \<Rightarrow> app \<Rightarrow> app" where
  "app_click code t st =
     in_world (finish_click t)
       (enhanced_listeners code t
          (in_world (\<lambda>p. page_listeners t (p\<lparr> prevented := False \<rparr>)) st))"

definition app_keydown :: "app_callbacks \<Rightarrow> string \<Rightarrow> app \<Rightarrow> app" where
  "app_keydown code key st =
     fold (\<lambda>c. Modal_escape_listener c key) [0..<length (comps (world st))]
       (in_world (page_keydown key) st)"

text \<open>
  Timers. \<open>tick\<close> lets the pending timer that is due first fire (the one set first among
  equals), moving the clock to its due time if need be; \<open>wait\<close> lets time pass. An
  exception thrown by a timer callback is reported.
\<close>

fun earliest :: "(nat \<times> task) list \<Rightarrow> (nat \<times> task) option" where
  "earliest [] = None"
| "earliest (x # xs) =
     (case earliest xs of
        None \<Rightarrow> Some x
      | Some y \<Rightarrow> if fst y < fst x then Some y else Some x)"

definition run_task :: "app_callbacks \<Rightarrow> task \<Rightarrow> app \<Rightarrow> app outcome" where
  "run_task code t st =
     (case t of
        BasicFocusFirst i \<Rightarrow> Returned (in_world (basic_focus_first i) st)
      | ModalFocusFirst c \<Rightarrow> Returned (in_world (focusFirstElement c) st)
      | AnimationEnd c animationClass callback \<Rightarrow>
          let st1 = in_world
                      (\<lambda>p. let e = element (comps p ! c)
                            in p\<lparr> modals := (modals p)
                                   [e := (modals p ! e)
                                      \<lparr> content_classes :=
                                          map_option (removeAll animationClass)
                                            (content_classes (modals p ! e)) \<rparr>] \<rparr>) st
          in if callback then close_callback code c st1 else Returned st1)"

definition report_app :: "app outcome \<Rightarrow> app" where
  "report_app r =
     (case r of
        Returned st \<Rightarrow> st
      | Threw e st \<Rightarrow> in_world (\<lambda>p. p\<lparr> uncaught := uncaught p @ [e] \<rparr>) st)"

definition tick :: "app_callbacks \<Rightarrow> app \<Rightarrow> app" where
  "tick code st =
     (case earliest (timers (world st)) of
        None \<Rightarrow> st
      | Some (due, t) \<Rightarrow>
          report_app
            (run_task code t
               (in_world (\<lambda>p. p\<lparr> timers := remove1 (due, t) (timers p),
                                   now := max (now p) due \<rparr>) st)))"

definition wait :: "nat \<Rightarrow> app \<Rightarrow> app" where
  "wait dt st = in_world (\<lambda>p. p\<lparr> now := now p + dt \<rparr>) st"

text \<open>A session: what the user does and what the clock does, one event after the other.\<close>

datatype event = Click node | KeyDown string | Tick | Wait nat

fun app_step :: "app_callbacks \<Rightarrow> app \<Rightarrow> event \<Rightarrow> app" where
  "app_step code st (Click t) = app_click code t st"
| "app_step code st (KeyDown key) = app_keydown code key st"
| "app_step code st Tick = tick code st"
| "app_step code st (Wait dt) = wait dt st"

definition app_run :: "app_callbacks \<Rightarrow> app \<Rightarrow> event list \<Rightarrow> app" where
  "app_run code st evs = foldl (app_step code) st evs"

text \<open>The page as loaded, with no subscriber on the bus; and callbacks that do nothing.\<close>

definition index_app :: app where
  "index_app = EventBus_new index_html"

definition enhanced_app :: app where
  "enhanced_app = EventBus_new (attach_enhanced index_html)"

definition no_code :: app_callbacks where
  "no_code cb d st = Returned st"


text \<open>
  A bus on which nothing is subscribed to the events a Modal publishes, as in these
  sources, where no module subscribes to them.
\<close>

definition quiet :: "app \<Rightarrow> bool" where
  "quiet st =
     (subscribers st ''modal:close-all'' = [] \<and> subscribers st ''modal:opened'' = [] \<and>
      subscribers st ''modal:closed'' = [])"








text \<open>
  Component \<open>c\<close> belongs to the modal \<open>e\<close> of the document and holds \<open>n\<close> as the
  element captured at open.
\<close>

definition holds_captured :: "nat \<Rightarrow> nat \<Rightarrow> node \<Rightarrow> page \<Rightarrow> bool" where
  "holds_captured c e n q =
     (c < length (comps q) \<and> element (comps q ! c) = e \<and> e < length (modals q) \<and>
      previouslyFocused (comps q ! c) = Some n)"




subsection \<open>The cap on the logs\<close>

lemma logs_log_accepted:
  assumes "levels lvl = Some v" and "v \<le> currentLevel L" and "maxLogs L = 1000"
    and "length (logs L) \<le> 1000"
  shows "logs (log ts stk lvl msg d L) =
           drop (Suc (length (logs L)) - 1000)
             (logs L @ [\<lparr> timestamp = ts, level = lvl, message = msg, data = d,
                           stack = (if lvl = ''ERROR'' then Some stk else None) \<rparr>])"
  using assms by (simp add: log_def Let_def slice_last_def)

lemma drop_last_snoc:
  "0 < n \<Longrightarrow>
   drop (Suc (length (drop (length es - n) es)) - n) (drop (length es - n) es @ [e]) =
   drop (Suc (length es) - n) (es @ [e])"
  by (cases "length es < n") (simp_all add: Suc_diff_le)

lemma log_fields:
  "maxLogs (log ts stk lvl msg d L) = maxLogs L"
  "currentLevel (log ts stk lvl msg d L) = currentLevel L"
  by (simp_all add: log_def Let_def split: option.splits)

lemma accept_fst: "fst (accept st ts stk lvl msg d) = fst st"
  by (simp add: accept_def split: option.splits)

lemma log_related:
  assumes "maxLogs L = 1000" and "currentLevel L = cur"
    and "logs L = drop (length es - 1000) es"
  shows "maxLogs (log ts stk lvl msg d L) = 1000 \<and>
         currentLevel (log ts stk lvl msg d L) = fst (accept (cur, es) ts stk lvl msg d) \<and>
         logs (log ts stk lvl msg d L) =
           drop (length (snd (accept (cur, es) ts stk lvl msg d)) - 1000)
                (snd (accept (cur, es) ts stk lvl msg d))"
proof -
  have logs_eq: "logs (log ts stk lvl msg d L) =
           drop (length (snd (accept (cur, es) ts stk lvl msg d)) - 1000)
                (snd (accept (cur, es) ts stk lvl msg d))"
  proof (cases "levels lvl")
    case None
    then show ?thesis using assms by (simp add: log_def accept_def)
  next
    case (Some v)
    show ?thesis
    proof (cases "v \<le> cur")
      case False
      then show ?thesis using assms Some by (simp add: log_def accept_def)
    next
      case True
      let ?e = "\<lparr> timestamp = ts, level = lvl, message = msg, data = d,
                  stack = (if lvl = ''ERROR'' then Some stk else None) \<rparr>"
      have len: "length (logs L) \<le> 1000" using assms(3) by simp
      have "logs (log ts stk lvl msg d L) = drop (Suc (length (logs L)) - 1000) (logs L @ [?e])"
        using Some True assms(1,2) len by (intro logs_log_accepted) simp_all
      also have "\<dots> = drop (Suc (length es) - 1000) (es @ [?e])"
        unfolding assms(3) by (rule drop_last_snoc) simp
      also have "\<dots> = drop (length (snd (accept (cur, es) ts stk lvl msg d)) - 1000)
                          (snd (accept (cur, es) ts stk lvl msg d))"
        using Some True by (simp add: accept_def)
      finally show ?thesis .
    qed
  qed
  show ?thesis using logs_eq assms(1,2) by (simp add: log_fields accept_fst)
qed

lemma logger_step_related:
  assumes "maxLogs L = 1000" and "currentLevel L = cur"
    and "logs L = drop (length es - 1000) es"
  shows "maxLogs (logger_step L x) = 1000 \<and>
         currentLevel (logger_step L x) = fst (accepted_step (cur, es) x) \<and>
         logs (logger_step L x) =
           drop (length (snd (accepted_step (cur, es) x)) - 1000) (snd (accepted_step (cur, es) x))"
proof (cases x)
  case (OpLog ts stk lvl msg d)
  then show ?thesis using log_related [OF assms] by simp
next
  case (OpError ts stk msg d)
  then show ?thesis using log_related [OF assms, of ts stk "''ERROR''" msg d]
    by (simp add: error_def)
next
  case (OpWarn ts stk msg d)
  then show ?thesis using log_related [OF assms, of ts stk "''WARN''" msg d]
    by (simp add: warn_def)
next
  case (OpInfo ts stk msg d)
  then show ?thesis using log_related [OF assms, of ts stk "''INFO''" msg d]
    by (simp add: info_def)
next
  case (OpDebug ts stk msg d)
  then show ?thesis using log_related [OF assms, of ts stk "''DEBUG''" msg d]
    by (simp add: debug_def)
next
  case OpClear
  then show ?thesis using assms by (simp add: clear_def)
qed

lemma logger_foldl_related:
  assumes "maxLogs L = 1000" and "currentLevel L = cur"
    and "logs L = drop (length es - 1000) es"
  shows "logs (foldl logger_step L ops) =
           drop (length (snd (foldl accepted_step (cur, es) ops)) - 1000)
                (snd (foldl accepted_step (cur, es) ops))"
  using assms
proof (induction ops arbitrary: L cur es)
  case Nil
  then show ?case by simp
next
  case (Cons x ops)
  obtain cur' es' where st: "accepted_step (cur, es) x = (cur', es')"
    by (cases "accepted_step (cur, es) x")
  have rel: "maxLogs (logger_step L x) = 1000 \<and> currentLevel (logger_step L x) = cur' \<and>
             logs (logger_step L x) = drop (length es' - 1000) es'"
    using logger_step_related [OF Cons.prems, of x] st by simp
  show ?case
    using Cons.IH [of "logger_step L x" cur' es'] rel st by simp
qed

text \<open>
  C10. After any sequence of Logger operations (error, warn, info, debug, log, clear) on
  the Logger as constructed, the logs array holds at most 1000
  entries, and it holds exactly the most recent 1000 of the entries accepted since the
  last clear: when the cap is exceeded the oldest entries are the ones dropped.
\<close>

theorem logger_logs_capped:
  "length (logs (logger_run ops)) \<le> 1000 \<and>
   logs (logger_run ops) = drop (length (accepted ops) - 1000) (accepted ops)"
proof -
  have eq: "logs (logger_run ops) = drop (length (accepted ops) - 1000) (accepted ops)"
    unfolding logger_run_def accepted_def
    by (rule logger_foldl_related) (simp_all add: Logger_new_def)
  then show ?thesis by simp
qed

subsection \<open>Publishing\<close>





section \<open>The page: proofs\<close>

subsection \<open>Lookups and styles\<close>

lemma first_index_Some:
  "first_index P xs = Some i \<Longrightarrow> i < length xs \<and> P (xs ! i)"
proof (induction xs arbitrary: i)
  case Nil then show ?case by simp
next
  case (Cons x xs)
  then show ?case by (cases "P x") (auto split: if_splits)
qed

lemma first_index_None: "first_index P xs = None \<Longrightarrow> x \<in> set xs \<Longrightarrow> \<not> P x"
  by (induction xs) (auto split: if_splits)

lemma getElementById_Some:
  "getElementById s target = Some i \<Longrightarrow> i < length (modals s) \<and> mid (modals s ! i) = target"
  unfolding getElementById_def by (drule first_index_Some) simp

lemma style_get_set_same: "v \<noteq> [] \<Longrightarrow> style_get (style_set st p v) p = v"
  by (induction st p v rule: style_set.induct) (auto simp: style_get_def)

lemma style_get_set_other: "q \<noteq> p \<Longrightarrow> style_get (style_set st p v) q = style_get st q"
  by (induction st p v rule: style_set.induct) (auto simp: style_get_def)

lemmas prims = clog_def set_modal_style_def set_aria_hidden_def set_overflow_def
  set_emergency_display_def set_timeout_def focus_def seq_def getElementById_def

lemma shown_fields:
  "mid (shown m) = mid m"
  "style_get (mstyle (shown m)) ''display'' = ''flex''"
  "aria_hidden (shown m) = Some ''false''"
  by (simp_all add: shown_def style_get_set_same style_get_set_other)

lemma basic_nav_click_opens:
  assumes "nav_links s ! l = Some (CHR ''#'' # hash)" and "navMap_at hash = Some target"
    and "getElementById s target = Some i"
  shows "modals (basic_nav_click l s) = (modals s)[i := shown (modals s ! i)]"
    and "overflow (basic_nav_click l s) = ''hidden''"
    and "nav_links (basic_nav_click l s) = nav_links s"
    and "prevented (basic_nav_click l s) = True"
    and "uncaught (basic_nav_click l s) = uncaught s"
proof -
  have i: "i < length (modals s)"
    using assms(3) by (simp add: getElementById_Some)
  show "modals (basic_nav_click l s) = (modals s)[i := shown (modals s ! i)]"
    and "overflow (basic_nav_click l s) = ''hidden''"
    and "nav_links (basic_nav_click l s) = nav_links s"
    and "prevented (basic_nav_click l s) = True"
    and "uncaught (basic_nav_click l s) = uncaught s"
    using assms i
    by (simp_all add: basic_nav_click_def Let_def prims shown_def split: option.splits)
qed

lemma first_index_update_mid:
  "mid m' = mid (xs ! i) \<Longrightarrow> i < length xs \<Longrightarrow>
   first_index (\<lambda>m. mid m = t) (xs[i := m']) = first_index (\<lambda>m. mid m = t) xs"
proof (induction xs arbitrary: i)
  case Nil then show ?case by simp
next
  case (Cons x xs)
  then show ?case by (cases i) auto
qed

lemma inline_nav_click_opens:
  assumes "nav_links s ! l = Some (CHR ''#'' # hash)" and "navMap_at hash = Some target"
    and "getElementById s target = Some i"
  shows "inline_nav_click l s = Returned (set_modal_style i ''display'' ''flex'' (s\<lparr> prevented := True \<rparr>))"
  using assms
  by (simp add: inline_nav_click_def Let_def getElementById_def split: option.splits)

lemma navMap_projects: "navMap_at ''projects'' = Some ''modal-projects''"
  by (simp add: navMap_at_def js_get_def navMap_def)

text \<open>
  C4. A click on the navigation link whose href is \<open>#projects\<close>, in any state of the
  page in which a modal with id \<open>modal-projects\<close> exists: after the listeners of the basic
  and the inline layer have run, that modal has inline display \<open>flex\<close> and is rendered,
  its \<open>aria-hidden\<close> is \<open>"false"\<close>, and the body's overflow is \<open>hidden\<close>.
\<close>

theorem nav_projects_click_shows_modal:
  assumes "l < length (nav_links s)" and "nav_links s ! l = Some ''#projects''"
    and "getElementById s ''modal-projects'' = Some i"
  shows "mid (modals (page_click (NavLink l) s) ! i) = ''modal-projects'' \<and>
         style_get (mstyle (modals (page_click (NavLink l) s) ! i)) ''display'' = ''flex'' \<and>
         rendered (page_click (NavLink l) s) i \<and>
         aria_hidden (modals (page_click (NavLink l) s) ! i) = Some ''false'' \<and>
         overflow (page_click (NavLink l) s) = ''hidden''"
proof -
  let ?s0 = "s\<lparr> prevented := False \<rparr>"
  let ?s1 = "basic_nav_click l ?s0"
  have i: "i < length (modals s)" and m: "mid (modals s ! i) = ''modal-projects''"
    using assms(3) by (simp_all add: getElementById_Some)
  have href: "nav_links ?s0 ! l = Some (CHR ''#'' # ''projects'')" using assms(2) by simp
  have g0: "getElementById ?s0 ''modal-projects'' = Some i"
    using assms(3) by (simp add: getElementById_def)
  note b = basic_nav_click_opens [OF href navMap_projects g0]
  have g1: "getElementById ?s1 ''modal-projects'' = Some i"
    using assms(3) i by (simp add: getElementById_def b(1) first_index_update_mid shown_fields)
  have href1: "nav_links ?s1 ! l = Some (CHR ''#'' # ''projects'')" using assms(2) by (simp add: b(3))
  have inl: "inline_nav_click l ?s1 =
      Returned (set_modal_style i ''display'' ''flex'' (?s1\<lparr> prevented := True \<rparr>))"
    by (rule inline_nav_click_opens [OF href1 navMap_projects g1])
  have pc: "page_click (NavLink l) s =
      default_action l (set_modal_style i ''display'' ''flex'' (?s1\<lparr> prevented := True \<rparr>))"
    using assms(1) by (simp add: page_click_def page_listeners_def finish_click_def inl report_def
        b(3) set_modal_style_def)
  show ?thesis
    unfolding pc using i m
    by (simp add: default_action_def set_modal_style_def b shown_fields rendered_def
        computed_display_def style_get_set_same split: option.splits)
qed


theorem nav_projects_click_shows_modal_witness:
  "3 < length (nav_links index_html) \<and> nav_links index_html ! 3 = Some ''#projects'' \<and>
   getElementById index_html ''modal-projects'' = Some 2 \<and>
   mid (modals (page_click (NavLink 3) index_html) ! 2) = ''modal-projects'' \<and>
   style_get (mstyle (modals (page_click (NavLink 3) index_html) ! 2)) ''display'' = ''flex'' \<and>
   rendered (page_click (NavLink 3) index_html) 2 \<and>
   aria_hidden (modals (page_click (NavLink 3) index_html) ! 2) = Some ''false'' \<and>
   overflow (page_click (NavLink 3) index_html) = ''hidden''"
proof -
  have a: "3 < length (nav_links index_html)" by (simp add: index_html_def)
  have b: "nav_links index_html ! 3 = Some ''#projects''" by (simp add: index_html_def)
  have c: "getElementById index_html ''modal-projects'' = Some 2"
    by (simp add: index_html_def getElementById_def index_modal_def)
  show ?thesis using a b c nav_projects_click_shows_modal [OF a b c] by simp
qed

subsection \<open>What the primitive effects leave alone\<close>

named_theorems frame

lemma clog_frame [frame]:
  "modals (clog m a s) = modals s" "overflow (clog m a s) = overflow s"
  "nav_links (clog m a s) = nav_links s" "dom_writes (clog m a s) = dom_writes s"
  "focus_calls (clog m a s) = focus_calls s" "active (clog m a s) = active s"
  "emergency (clog m a s) = emergency s" "uncaught (clog m a s) = uncaught s"
  "attached (clog m a s) = attached s" "timers (clog m a s) = timers s"
  "scrolled (clog m a s) = scrolled s" "prevented (clog m a s) = prevented s"
  "page_console (clog m a s) = page_console s @ [(m, a)]"
  by (simp_all add: clog_def)

lemma set_overflow_frame [frame]:
  "modals (set_overflow v s) = modals s" "overflow (set_overflow v s) = v"
  "nav_links (set_overflow v s) = nav_links s"
  "focus_calls (set_overflow v s) = focus_calls s" "active (set_overflow v s) = active s"
  "emergency (set_overflow v s) = emergency s" "uncaught (set_overflow v s) = uncaught s"
  "attached (set_overflow v s) = attached s"
  by (simp_all add: set_overflow_def)

lemma set_emergency_display_frame [frame]:
  "modals (set_emergency_display v s) = modals s"
  "overflow (set_emergency_display v s) = overflow s"
  "nav_links (set_emergency_display v s) = nav_links s"
  "focus_calls (set_emergency_display v s) = focus_calls s"
  "active (set_emergency_display v s) = active s"
  "uncaught (set_emergency_display v s) = uncaught s"
  "attached (set_emergency_display v s) = attached s"
  by (simp_all add: set_emergency_display_def split: option.splits)

lemma set_modal_style_frame [frame]:
  "modals (set_modal_style i p v s) =
     (modals s)[i := (modals s ! i)\<lparr> mstyle := style_set (mstyle (modals s ! i)) p v \<rparr>]"
  "overflow (set_modal_style i p v s) = overflow s"
  "nav_links (set_modal_style i p v s) = nav_links s"
  "focus_calls (set_modal_style i p v s) = focus_calls s"
  "active (set_modal_style i p v s) = active s"
  "emergency (set_modal_style i p v s) = emergency s"
  "uncaught (set_modal_style i p v s) = uncaught s"
  "attached (set_modal_style i p v s) = attached s"
  by (simp_all add: set_modal_style_def)

lemma set_aria_hidden_frame [frame]:
  "modals (set_aria_hidden i v s) = (modals s)[i := (modals s ! i)\<lparr> aria_hidden := Some v \<rparr>]"
  "overflow (set_aria_hidden i v s) = overflow s"
  "nav_links (set_aria_hidden i v s) = nav_links s"
  "focus_calls (set_aria_hidden i v s) = focus_calls s"
  "active (set_aria_hidden i v s) = active s"
  "emergency (set_aria_hidden i v s) = emergency s"
  "uncaught (set_aria_hidden i v s) = uncaught s"
  "attached (set_aria_hidden i v s) = attached s"
  by (simp_all add: set_aria_hidden_def)

lemma focus_frame [frame]:
  "modals (focus n s) = modals s" "overflow (focus n s) = overflow s"
  "nav_links (focus n s) = nav_links s" "focus_calls (focus n s) = focus_calls s @ [n]"
  "emergency (focus n s) = emergency s" "uncaught (focus n s) = uncaught s"
  "attached (focus n s) = attached s"
  by (simp_all add: focus_def)

subsection \<open>Closing\<close>

lemma hide_step_modals:
  "i < length (modals s) \<Longrightarrow>
   modals (seq [set_modal_style i ''display'' ''none'', set_aria_hidden i ''true''] s) =
     (modals s)[i := hidden (modals s ! i)]"
  by (simp add: seq_def frame hidden_def)

lemma hide_step_frame:
  "overflow (seq [set_modal_style i ''display'' ''none'', set_aria_hidden i ''true''] s) = overflow s"
  "nav_links (seq [set_modal_style i ''display'' ''none'', set_aria_hidden i ''true''] s) = nav_links s"
  "focus_calls (seq [set_modal_style i ''display'' ''none'', set_aria_hidden i ''true''] s) = focus_calls s"
  "active (seq [set_modal_style i ''display'' ''none'', set_aria_hidden i ''true''] s) = active s"
  "emergency (seq [set_modal_style i ''display'' ''none'', set_aria_hidden i ''true''] s) = emergency s"
  by (simp_all add: seq_def frame)

lemma fold_hide:
  "k \<le> length (modals s) \<Longrightarrow>
   length (modals (fold (\<lambda>i. seq [set_modal_style i ''display'' ''none'', set_aria_hidden i ''true''])
                    [0..<k] s)) = length (modals s) \<and>
   (\<forall>j. modals (fold (\<lambda>i. seq [set_modal_style i ''display'' ''none'', set_aria_hidden i ''true''])
                    [0..<k] s) ! j =
        (if j < k then hidden (modals s ! j) else modals s ! j)) \<and>
   overflow (fold (\<lambda>i. seq [set_modal_style i ''display'' ''none'', set_aria_hidden i ''true''])
                    [0..<k] s) = overflow s \<and>
   emergency (fold (\<lambda>i. seq [set_modal_style i ''display'' ''none'', set_aria_hidden i ''true''])
                    [0..<k] s) = emergency s \<and>
   active (fold (\<lambda>i. seq [set_modal_style i ''display'' ''none'', set_aria_hidden i ''true''])
                    [0..<k] s) = active s \<and>
   focus_calls (fold (\<lambda>i. seq [set_modal_style i ''display'' ''none'', set_aria_hidden i ''true''])
                    [0..<k] s) = focus_calls s"
proof (induction k)
  case 0
  show ?case by simp
next
  case (Suc k)
  then show ?case
    by (simp add: hide_step_modals hide_step_frame nth_list_update)
qed

lemma forEach_hide_modals:
  "modals (forEach_modal (\<lambda>i. seq [set_modal_style i ''display'' ''none'', set_aria_hidden i ''true'']) s)
     = map hidden (modals s)"
  unfolding forEach_modal_def
  using fold_hide [of "length (modals s)" s]
  by (intro nth_equalityI) simp_all

lemma forEach_hide_frame:
  "overflow (forEach_modal (\<lambda>i. seq [set_modal_style i ''display'' ''none'', set_aria_hidden i ''true'']) s) = overflow s"
  "emergency (forEach_modal (\<lambda>i. seq [set_modal_style i ''display'' ''none'', set_aria_hidden i ''true'']) s) = emergency s"
  "active (forEach_modal (\<lambda>i. seq [set_modal_style i ''display'' ''none'', set_aria_hidden i ''true'']) s) = active s"
  "focus_calls (forEach_modal (\<lambda>i. seq [set_modal_style i ''display'' ''none'', set_aria_hidden i ''true'']) s) = focus_calls s"
  unfolding forEach_modal_def
  using fold_hide [of "length (modals s)" s] by simp_all

lemma closeAllModals_effect:
  "modals (closeAllModals s) = map hidden (modals s)"
  "overflow (closeAllModals s) = []"
  "active (closeAllModals s) = active s"
  "focus_calls (closeAllModals s) = focus_calls s"
  by (simp_all add: closeAllModals_def seq_def frame forEach_hide_modals forEach_hide_frame)

lemma hidden_fields:
  "mid (hidden m) = mid m"
  "style_get (mstyle (hidden m)) ''display'' = ''none''"
  "aria_hidden (hidden m) = Some ''true''"
  "\<not> is_open (hidden m)"
  "computed_display (hidden m) = ''none''"
  by (simp_all add: hidden_def style_get_set_same is_open_def computed_display_def)

lemma page_keydown_Escape:
  "modals (page_keydown ''Escape'' s) = map hidden (modals s)"
  "overflow (page_keydown ''Escape'' s) = []"
  by (simp_all add: page_keydown_def basic_keydown_def Let_def closeAllModals_effect frame)






subsection \<open>The listeners of the enhanced layer and what they leave alone\<close>

lemma look_nth:
  assumes "look q = look p" and "i < length (modals p)"
  shows "mid (modals q ! i) = mid (modals p ! i)"
    and "mstyle (modals q ! i) = mstyle (modals p ! i)"
    and "aria_hidden (modals q ! i) = aria_hidden (modals p ! i)"
    and "overflow q = overflow p"
    and "length (modals q) = length (modals p)"
proof -
  have m: "map (\<lambda>m. (mid m, mstyle m, aria_hidden m)) (modals q) =
           map (\<lambda>m. (mid m, mstyle m, aria_hidden m)) (modals p)"
    and o: "overflow q = overflow p"
    using assms(1) by (simp_all add: look_def)
  show len: "length (modals q) = length (modals p)" using m by (rule map_eq_imp_length_eq)
  have "map (\<lambda>m. (mid m, mstyle m, aria_hidden m)) (modals q) ! i =
        map (\<lambda>m. (mid m, mstyle m, aria_hidden m)) (modals p) ! i" using m by simp
  then have "(mid (modals q ! i), mstyle (modals q ! i), aria_hidden (modals q ! i)) =
             (mid (modals p ! i), mstyle (modals p ! i), aria_hidden (modals p ! i))"
    using assms(2) len by simp
  then show "mid (modals q ! i) = mid (modals p ! i)"
    and "mstyle (modals q ! i) = mstyle (modals p ! i)"
    and "aria_hidden (modals q ! i) = aria_hidden (modals p ! i)" by simp_all
  show "overflow q = overflow p" by (rule o)
qed

lemma map_update_same:
  assumes "f x = f (xs ! i)"
  shows "map f (xs[i := x]) = map f xs"
proof (cases "i < length xs")
  case True
  then show ?thesis using assms by (simp add: map_update list_update_same_conv)
next
  case False
  then have "xs[i := x] = xs" by (intro list_update_beyond) simp
  then show ?thesis by simp
qed

lemma look_applyAnimation: "look (applyAnimation c d cb p) = look p"
  by (simp add: applyAnimation_def Let_def look_def set_timeout_def map_update_same
      split: option.splits)

lemma look_Modal_close: "look (Modal_close c p) = look p"
  by (simp add: Modal_close_def look_applyAnimation)


lemma look_escape_listener:
  "look (world (Modal_escape_listener c key st)) = look (world st)"
  by (simp add: Modal_escape_listener_def Let_def wrapped_def in_world_def look_Modal_close)

lemma fold_look:
  assumes "\<And>c st. look (world (f c st)) = look (world st)"
  shows "look (world (fold f cs st)) = look (world st)"
  by (induction cs arbitrary: st) (simp_all add: assms)



text \<open>
  C5. Pressing Escape, in any state of the page and of the event bus and with any Modal
  components attached: after the keydown listeners of the basic layer and of the Modal
  components have run, every modal of the document (an open one such as modal-projects
  in particular) has inline display \<open>none\<close>, so it is not open and not rendered, its
  \<open>aria-hidden\<close> is \<open>"true"\<close>, and the body's overflow is empty: the scroll lock is
  released.
\<close>

theorem escape_hides_modal:
  assumes "i < length (modals (world st))"
  shows "style_get (mstyle (modals (world (app_keydown code ''Escape'' st)) ! i)) ''display'' = ''none'' \<and>
         \<not> is_open (modals (world (app_keydown code ''Escape'' st)) ! i) \<and>
         \<not> rendered (world (app_keydown code ''Escape'' st)) i \<and>
         aria_hidden (modals (world (app_keydown code ''Escape'' st)) ! i) = Some ''true'' \<and>
         overflow (world (app_keydown code ''Escape'' st)) = []"
proof -
  let ?p1 = "page_keydown ''Escape'' (world st)"
  let ?q = "world (app_keydown code ''Escape'' st)"
  have i1: "i < length (modals ?p1)" using assms by (simp add: page_keydown_Escape)
  have lk: "look ?q = look ?p1"
    unfolding app_keydown_def
    using fold_look [of "\<lambda>c. Modal_escape_listener c ''Escape''", OF look_escape_listener]
    by (simp add: in_world_def)
  have m1: "modals ?p1 ! i = hidden (modals (world st) ! i)"
    using assms by (simp add: page_keydown_Escape)
  have st: "mstyle (modals ?q ! i) = mstyle (hidden (modals (world st) ! i))"
    and ar: "aria_hidden (modals ?q ! i) = Some ''true''"
    and ov: "overflow ?q = []"
    and len: "length (modals ?q) = length (modals ?p1)"
    using look_nth [OF lk i1] m1 by (simp_all add: hidden_fields page_keydown_Escape)
  show ?thesis
    using st ar ov
    by (simp add: hidden_fields is_open_def rendered_def computed_display_def)
qed

theorem escape_hides_modal_witness:
  "2 < length (modals (world (app_click no_code (NavLink 3) enhanced_app))) \<and>
   is_open (modals (world (app_click no_code (NavLink 3) enhanced_app)) ! 2) \<and>
   overflow (world (app_click no_code (NavLink 3) enhanced_app)) = ''hidden'' \<and>
   mid (modals (world (app_keydown no_code ''Escape'' (app_click no_code (NavLink 3) enhanced_app))) ! 2)
     = ''modal-projects'' \<and>
   style_get (mstyle (modals (world (app_keydown no_code ''Escape''
       (app_click no_code (NavLink 3) enhanced_app))) ! 2)) ''display'' = ''none'' \<and>
   aria_hidden (modals (world (app_keydown no_code ''Escape''
       (app_click no_code (NavLink 3) enhanced_app))) ! 2) = Some ''true'' \<and>
   overflow (world (app_keydown no_code ''Escape'' (app_click no_code (NavLink 3) enhanced_app))) = []"
proof -
  have a: "2 < length (modals (world (app_click no_code (NavLink 3) enhanced_app)))"
    by code_simp
  have b: "is_open (modals (world (app_click no_code (NavLink 3) enhanced_app)) ! 2)"
    by code_simp
  have c: "overflow (world (app_click no_code (NavLink 3) enhanced_app)) = ''hidden''"
    by code_simp
  have d: "mid (modals (world (app_keydown no_code ''Escape''
              (app_click no_code (NavLink 3) enhanced_app))) ! 2) = ''modal-projects''"
    by code_simp
  show ?thesis
    using a b c d
      escape_hides_modal [OF a, of no_code]
    by simp
qed

subsection \<open>Clicks on a modal\<close>






subsection \<open>The hero link\<close>

lemma navMap_hero: "navMap_at ''hero'' = None" "modalMap_at ''hero'' = None"
  by (simp_all add: navMap_at_def modalMap_at_def js_get_def navMap_def modalMap_def
      Object_prototype_members_def)

lemma page_listeners_hero:
  assumes "l < length (nav_links p)" and "nav_links p ! l = Some ''#hero''"
  shows "page_listeners (NavLink l) (p\<lparr> prevented := False \<rparr>) =
           (clog ''log'' [Str ''Navigation clicked:'', Str ''hero''] p)
              \<lparr> prevented := True, scrolled := ScrollTop \<rparr>"
  using assms
  by (simp add: page_listeners_def basic_nav_click_def inline_nav_click_def navMap_hero
      Let_def report_def clog_def)

text \<open>
  C7, as the claim states it, fails for the enhanced layer: with the Navigation component
  attached to the page of index.html, a click on the link \<open>#hero\<close> ends with the element
  of id \<open>hero\<close> looked up and scrolled into view, not with a scroll to the document top.
\<close>

theorem hero_link_enhanced_scrolls_to_element:
  "nav_links (world enhanced_app) ! 0 = Some ''#hero'' \<and>
   scrolled (world (app_click no_code (NavLink 0) enhanced_app)) = ScrollIntoView ''hero'' \<and>
   scrolled (world (app_click no_code (NavLink 0) enhanced_app)) \<noteq> ScrollTop"
  by code_simp

text \<open>
  C7, amended. Activating a navigation link whose href is \<open>#hero\<close> opens no modal and
  leaves the scroll lock alone in every layer. With the basic and inline layers only, the
  viewport is scrolled to the document top, whatever elements the document has (no
  lookup). When the Navigation component of the enhanced layer is attached as well, its
  \<open>handleNavigation\<close> looks the element \<open>#hero\<close> up and, if there is one, scrolls it into
  view instead.
\<close>

theorem hero_link_scrolls:
  assumes "l < length (nav_links (world st))" and "nav_links (world st) ! l = Some ''#hero''"
  shows "modals (world (app_click code (NavLink l) st)) = modals (world st) \<and>
         overflow (world (app_click code (NavLink l) st)) = overflow (world st) \<and>
         scrolled (world (app_click code (NavLink l) st)) =
           (if nav_attached (world st) \<and>
               (''hero'' \<in> set (element_ids (world st)) \<or>
                ''hero'' \<in> set (map mid (modals (world st))))
            then ScrollIntoView ''hero'' else ScrollTop)"
proof -
  let ?p1 = "(clog ''log'' [Str ''Navigation clicked:'', Str ''hero''] (world st))
              \<lparr> prevented := True, scrolled := ScrollTop \<rparr>"
  let ?found = "''hero'' \<in> set (element_ids (world st)) \<or>
                ''hero'' \<in> set (map mid (modals (world st)))"
  have e1: "in_world (\<lambda>p. page_listeners (NavLink l) (p\<lparr> prevented := False \<rparr>)) st
            = st\<lparr> world := ?p1 \<rparr>"
    by (simp add: in_world_def page_listeners_hero [OF assms])
  have q: "querySelector_hash ?p1 ''#hero'' = Inr (if ?found then Some ''hero'' else None)"
    by (simp add: querySelector_hash_def clog_def)
  have h: "handleNavigation code l (st\<lparr> world := ?p1 \<rparr>) =
           Returned (if ?found
                     then st\<lparr> world := ?p1\<lparr> scrolled := ScrollIntoView ''hero'',
                                              currentSection := ''hero'' \<rparr> \<rparr>
                     else st\<lparr> world := ?p1 \<rparr>)"
    using assms(2) q
    by (simp add: handleNavigation_def navMap_hero Let_def in_world_def clog_def)
  have n: "Navigation_listener code l (st\<lparr> world := ?p1 \<rparr>) =
           (if nav_attached (world st) \<and> ?found
            then st\<lparr> world := ?p1\<lparr> scrolled := ScrollIntoView ''hero'',
                                     currentSection := ''hero'' \<rparr> \<rparr>
            else st\<lparr> world := ?p1 \<rparr>)"
  proof (cases "nav_attached (world st)")
    case True
    have "in_world (\<lambda>p. p\<lparr> prevented := True \<rparr>) (st\<lparr> world := ?p1 \<rparr>) = st\<lparr> world := ?p1 \<rparr>"
      by (simp add: in_world_def)
    then show ?thesis
      using True assms(2) h by (simp add: Navigation_listener_def wrapped_def clog_def)
  next
    case False
    then show ?thesis using assms(2) by (simp add: Navigation_listener_def clog_def)
  qed
  have en: "enhanced_listeners code (NavLink l) (st\<lparr> world := ?p1 \<rparr>) =
            Navigation_listener code l (st\<lparr> world := ?p1 \<rparr>)"
    using assms(1) by (simp add: enhanced_listeners_def clog_def)
  have ac: "app_click code (NavLink l) st =
            in_world (finish_click (NavLink l)) (Navigation_listener code l (st\<lparr> world := ?p1 \<rparr>))"
    by (simp add: app_click_def e1 en)
  show ?thesis
    unfolding ac n using assms
    by (simp add: in_world_def finish_click_def default_action_def clog_def)
qed

theorem hero_link_scrolls_witness:
  "0 < length (nav_links (world index_app)) \<and> nav_links (world index_app) ! 0 = Some ''#hero'' \<and>
   modals (world (app_click no_code (NavLink 0) index_app)) = modals (world index_app) \<and>
   overflow (world (app_click no_code (NavLink 0) index_app)) = overflow (world index_app) \<and>
   \<not> nav_attached (world index_app) \<and>
   scrolled (world (app_click no_code (NavLink 0) index_app)) = ScrollTop"
proof -
  have a: "0 < length (nav_links (world index_app))" by code_simp
  have b: "nav_links (world index_app) ! 0 = Some ''#hero''" by code_simp
  have c: "\<not> nav_attached (world index_app)" by code_simp
  show ?thesis using a b c hero_link_scrolls [OF a b, of no_code] by simp
qed

subsection \<open>Opening a modal that is not in the document\<close>

lemma basic_nav_click_missing:
  assumes "nav_links s ! l = Some (CHR ''#'' # hash)" and "navMap_at hash = Some target"
    and "getElementById s target = None"
  shows "basic_nav_click l s =
           clog ''error'' [Str ''Modal not found:'', Str target]
             ((clog ''log'' [Str ''Navigation clicked:'', Str hash] s)\<lparr> prevented := True \<rparr>)"
  using assms
  by (simp add: basic_nav_click_def Let_def getElementById_def clog_def)

lemma basic_nav_click_missing_effect:
  assumes "nav_links s ! l = Some (CHR ''#'' # hash)" and "navMap_at hash = Some target"
    and "getElementById s target = None"
  shows "modals (basic_nav_click l s) = modals s"
    and "overflow (basic_nav_click l s) = overflow s"
    and "dom_writes (basic_nav_click l s) = dom_writes s"
    and "uncaught (basic_nav_click l s) = uncaught s"
    and "page_console (basic_nav_click l s) =
           page_console s @ [(''log'', [Str ''Navigation clicked:'', Str hash]),
                             (''error'', [Str ''Modal not found:'', Str target])]"
  by (simp_all add: basic_nav_click_missing [OF assms] clog_def)

text \<open>
  C8 at a failing input. In the page of index.html with the element \<open>modal-projects\<close>
  gone from the document, a click on the link \<open>#projects\<close> is a request to open an
  unregistered modal. The listener of the basic layer records the diagnostic and changes
  no modal, no \<open>aria-hidden\<close> and no overflow, as the claim says; the listener of the
  inline layer, which runs on the same click, dereferences the missing element and
  throws a TypeError.
\<close>

theorem open_missing_modal_throws:
  "getElementById index_html_two_modals ''modal-projects'' = None \<and>
   nav_links index_html_two_modals ! 3 = Some ''#projects'' \<and>
   page_console (basic_nav_click 3 index_html_two_modals) =
     [(''log'', [Str ''Navigation clicked:'', Str ''projects'']),
      (''error'', [Str ''Modal not found:'', Str ''modal-projects''])] \<and>
   thrown (inline_nav_click 3 (basic_nav_click 3 index_html_two_modals)) =
     Some (TypeError ''Cannot read properties of null (reading style)'') \<and>
   uncaught (page_click (NavLink 3) index_html_two_modals) =
     [TypeError ''Cannot read properties of null (reading style)''] \<and>
   modals (page_click (NavLink 3) index_html_two_modals) = modals index_html_two_modals \<and>
   overflow (page_click (NavLink 3) index_html_two_modals) = overflow index_html_two_modals"
  by code_simp

subsection \<open>Two modals open at once\<close>

text \<open>
  C1 at a failing input. On the page of index.html, with the basic and inline layers
  attached, the link \<open>#projects\<close> is activated and then, the modal still open, the link
  \<open>#skills\<close> (by keyboard, say): the listeners show the second modal and close nothing, so
  modal-projects and modal-skills are both open.
\<close>

theorem two_modals_open:
  "open_modals (world (app_run no_code index_app [Click (NavLink 3)])) = [2] \<and>
   open_modals (world (app_run no_code index_app [Click (NavLink 3), Click (NavLink 4)])) = [2, 3] \<and>
   map mid (modals (world index_app)) ! 2 = ''modal-projects'' \<and>
   map mid (modals (world index_app)) ! 3 = ''modal-skills''"
  by code_simp

subsection \<open>Closing a closed modal\<close>

lemma Modal_close_closed: "\<not> Modal_isOpen c p \<Longrightarrow> Modal_close c p = p"
  by (simp add: Modal_close_def)

text \<open>
  C3 at a failing input. On the page of index.html the modal modal-skills is open and
  its close button is clicked. The listener of the basic layer takes the first modal
  whose style attribute contains \<open>flex\<close>, which is modal-projects (its attribute reads
  \<open>align-items: flex-start\<close>), a closed modal, and calls \<open>closeModal\<close> on it. \<open>closeModal\<close>
  has no test for a closed modal: it writes display and \<open>aria-hidden\<close> again, releases
  the scroll lock and calls \<open>focus()\<close> on the link \<open>#projects\<close>, while modal-skills stays
  open.
\<close>

theorem closeModal_on_closed_modal:
  "\<not> is_open (modals skills_open ! 2) \<and>
   is_open (modals skills_open ! 3) \<and>
   overflow skills_open = ''hidden'' \<and>
   aria_hidden (modals skills_open ! 2) = None \<and>
   querySelector_modal_flex skills_open = Some 2 \<and>
   dom_writes (closeModal (Some 2) skills_open) =
     dom_writes skills_open @
       [(ModalEl 2, ''display'', ''none''), (ModalEl 2, ''aria-hidden'', ''true''),
        (Body, ''overflow'', [])] \<and>
   focus_calls (closeModal (Some 2) skills_open) = focus_calls skills_open @ [NavLink 3] \<and>
   overflow (closeModal (Some 2) skills_open) = [] \<and>
   aria_hidden (modals (closeModal (Some 2) skills_open) ! 2) = Some ''true'' \<and>
   look (page_click (CloseBtn 3) skills_open) = look (closeModal (Some 2) skills_open) \<and>
   open_modals (page_click (CloseBtn 3) skills_open) = [3]"
  by code_simp

subsection \<open>Opening and closing through a Modal component\<close>



lemma quiet_world [simp]: "quiet (st\<lparr> world := p \<rparr>) = quiet st"
  by (simp add: quiet_def subscribers_def)













lemma holds_captured_timers [simp]:
  "holds_captured c e n (q\<lparr> timers := T, now := t \<rparr>) = holds_captured c e n q"
  by (simp add: holds_captured_def)





subsection \<open>Opening and closing through the basic layer\<close>





subsection \<open>The round trip\<close>




end
